theory Spec2Isabelle
  imports Main
begin

section \<open>machine-sync: data model\<close>

text \<open>
  The program (\<^verbatim>\<open>main.go\<close> and the keychain file) watches a local directory and
  replays each change notification against a remote machine over one shared SFTP
  session. Everything the program does through a library (the local file system, the
  SSH and SFTP clients, the file watcher, the logger) is an effect; the model makes each
  effect an explicit entry of a trace and takes the library's answers as parameters.
\<close>

type_synonym bytes = string

text \<open>A Go \<^verbatim>\<open>error\<close> value; \<open>Error_msg\<close> is its \<^verbatim>\<open>Error()\<close> text.\<close>

datatype error = Error (Error_msg: string)

definition errFlagError :: error where
  "errFlagError = Error ''flag error''"

text \<open>
  \<^verbatim>\<open>fsnotify.FileEvent\<close> belongs to the watcher library. The program reads its
  \<^verbatim>\<open>Name\<close> and asks \<^verbatim>\<open>IsDelete()\<close>; the kinds are the four of the
  specification's ChangeEvent.
\<close>

datatype event_kind = Created | Modified | Deleted | Renamed

record FileEvent =
  Name :: string
  kind :: event_kind

definition IsDelete :: "FileEvent \<Rightarrow> bool" where
  "IsDelete evt = (kind evt = Deleted)"

text \<open>
  Everything a run can do that is visible from outside, in the order it happens.
  \<open>'f\<close> is the handle of an opened local file, \<open>'h\<close> the handle of a remote file.
  \<open>MutexLock\<close>, \<open>MutexUnlock\<close> are calls on the global \<^verbatim>\<open>mutex\<close>, \<open>ChanSend\<close> is
  a send on the error channel \<^verbatim>\<open>errChan\<close>, \<open>LogFatal\<close> is \<^verbatim>\<open>log.Fatal\<close>, which
  ends the process.
\<close>

datatype log_level = InfoLevel | DebugLevel

datatype ('f, 'h) action =
    LogInfo string
  | LogDebug string
  | LogError string
  | LogFatal string
  | SetLevel log_level
  | OsOpen string
  | ReadAll 'f
  | ReadFile string
  | SshDial string string
  | SftpNewClient
  | NewWatcher
  | WatcherWatch string
  | SftpRemove string
  | SftpCreate string
  | SftpWrite 'h bytes
  | ChanSend error
  | MutexLock
  | MutexUnlock

text \<open>
  The SFTP client \<^verbatim>\<open>rsftp\<close> is an object of the \<^verbatim>\<open>pkg/sftp\<close> library: a record of
  the three methods the program calls, each a function of the remote machine's state
  \<open>'r\<close>. \<open>Write\<close> is the \<^verbatim>\<open>Write\<close> method of \<^verbatim>\<open>sftp.File\<close>, on the handle that \<open>Create\<close> returned.
\<close>

record ('h, 'r) sftp_Client =
  Remove :: "string \<Rightarrow> 'r \<Rightarrow> error option \<times> 'r"
  Create :: "string \<Rightarrow> 'r \<Rightarrow> (error + 'h) \<times> 'r"
  Write :: "'h \<Rightarrow> bytes \<Rightarrow> 'r \<Rightarrow> error option \<times> 'r"

text \<open>The local file system is only read: \<^verbatim>\<open>os.Open\<close> and \<^verbatim>\<open>ioutil.ReadAll\<close>.\<close>

record 'f local_os =
  os_Open :: "string \<Rightarrow> error + 'f"
  ioutil_ReadAll :: "'f \<Rightarrow> error + bytes"

text \<open>The package-level variables of \<^verbatim>\<open>main.go\<close>.\<close>

record ('h, 'r) globals =
  srcPath :: string
  destPath :: string
  machineName :: string
  machineConfigPath :: string
  machineUser :: string
  rsftp :: "('h, 'r) sftp_Client"

record ('f, 'h, 'r) state =
  remote :: 'r
  trace :: "('f, 'h) action list"

definition emit :: "('f, 'h) action \<Rightarrow> ('f, 'h, 'r) state \<Rightarrow> ('f, 'h, 'r) state" where
  "emit a s = s\<lparr>trace := trace s @ [a]\<rparr>"

section \<open>handleEvent\<close>

text \<open>Each library call appends its action to the trace and threads the remote state.\<close>

definition call_Open ::
  "'f local_os \<Rightarrow> string \<Rightarrow> ('f, 'h, 'r) state \<Rightarrow> (error + 'f) \<times> ('f, 'h, 'r) state" where
  "call_Open os p s = (os_Open os p, emit (OsOpen p) s)"

definition call_ReadAll ::
  "'f local_os \<Rightarrow> 'f \<Rightarrow> ('f, 'h, 'r) state \<Rightarrow> (error + bytes) \<times> ('f, 'h, 'r) state" where
  "call_ReadAll os f s = (ioutil_ReadAll os f, emit (ReadAll f) s)"

definition call_Remove ::
  "('h, 'r) globals \<Rightarrow> string \<Rightarrow> ('f, 'h, 'r) state \<Rightarrow> error option \<times> ('f, 'h, 'r) state" where
  "call_Remove g p s =
     (case Remove (rsftp g) p (remote s) of
        (res, r') \<Rightarrow> (res, emit (SftpRemove p) (s\<lparr>remote := r'\<rparr>)))"

definition call_Create ::
  "('h, 'r) globals \<Rightarrow> string \<Rightarrow> ('f, 'h, 'r) state \<Rightarrow> (error + 'h) \<times> ('f, 'h, 'r) state" where
  "call_Create g p s =
     (case Create (rsftp g) p (remote s) of
        (res, r') \<Rightarrow> (res, emit (SftpCreate p) (s\<lparr>remote := r'\<rparr>)))"

definition call_Write ::
  "('h, 'r) globals \<Rightarrow> 'h \<Rightarrow> bytes \<Rightarrow> ('f, 'h, 'r) state \<Rightarrow> error option \<times> ('f, 'h, 'r) state" where
  "call_Write g h d s =
     (case Write (rsftp g) h d (remote s) of
        (res, r') \<Rightarrow> (res, emit (SftpWrite h d) (s\<lparr>remote := r'\<rparr>)))"

text \<open>
  \<^verbatim>\<open>handleEvent(evt, errChan)\<close>. The remote path is
  \<^verbatim>\<open>fmt.Sprintf("%s/%s", destPath, evt.Name)\<close>. The parameter \<^verbatim>\<open>errChan\<close> and the
  global \<^verbatim>\<open>mutex\<close> do not occur in the body, so the body emits no \<open>ChanSend\<close>,
  \<open>MutexLock\<close> or \<open>MutexUnlock\<close>. Every early \<^verbatim>\<open>return\<close> is a branch that ends here.
\<close>

definition handleEvent ::
  "('h, 'r) globals \<Rightarrow> 'f local_os \<Rightarrow> FileEvent \<Rightarrow> ('f, 'h, 'r) state \<Rightarrow> ('f, 'h, 'r) state" where
  "handleEvent g os evt s =
     (let filePath = destPath g @ ''/'' @ Name evt in
      if IsDelete evt then
        (let s1 = emit (LogInfo (''deleting '' @ filePath)) s in
         case call_Remove g filePath s1 of
           (Some err, s2) \<Rightarrow> emit (LogError (Error_msg err)) s2
         | (None, s2) \<Rightarrow> s2)
      else
        (let s1 = emit (LogInfo (''updating '' @ filePath)) s in
         case call_Open os (Name evt) s1 of
           (Inl err, s2) \<Rightarrow> emit (LogError (Error_msg err)) s2
         | (Inr localFile, s2) \<Rightarrow>
             (case call_Remove g filePath s2 of
                (_, s3) \<Rightarrow>
                  (case call_Create g filePath s3 of
                     (Inl err, s4) \<Rightarrow> emit (LogError (Error_msg err)) s4
                   | (Inr remoteFile, s4) \<Rightarrow>
                       (case call_ReadAll os localFile s4 of
                          (Inl err, s5) \<Rightarrow> emit (LogError (Error_msg err)) s5
                        | (Inr data, s5) \<Rightarrow>
                            (case call_Write g remoteFile data s5 of
                               (Some err, s6) \<Rightarrow> emit (LogError (Error_msg err)) s6
                             | (None, s6) \<Rightarrow> s6))))))"

text \<open>Projections of a trace: the remote operations, the reports, the channel sends.\<close>

fun is_remote_op :: "('f, 'h) action \<Rightarrow> bool" where
  "is_remote_op (SftpRemove p) = True"
| "is_remote_op (SftpCreate p) = True"
| "is_remote_op (SftpWrite h d) = True"
| "is_remote_op a = False"

definition remote_ops :: "('f, 'h) action list \<Rightarrow> ('f, 'h) action list" where
  "remote_ops tr = filter is_remote_op tr"

fun reported :: "('f, 'h) action list \<Rightarrow> string list" where
  "reported [] = []"
| "reported (LogError m # tr) = m # reported tr"
| "reported (a # tr) = reported tr"

fun chan_sends :: "('f, 'h) action list \<Rightarrow> error list" where
  "chan_sends [] = []"
| "chan_sends (ChanSend e # tr) = e # chan_sends tr"
| "chan_sends (a # tr) = chan_sends tr"

fun is_mutex_op :: "('f, 'h) action \<Rightarrow> bool" where
  "is_mutex_op MutexLock = True"
| "is_mutex_op MutexUnlock = True"
| "is_mutex_op a = False"

text \<open>What one call of \<open>handleEvent\<close> adds to the trace.\<close>

definition handled ::
  "('h, 'r) globals \<Rightarrow> 'f local_os \<Rightarrow> FileEvent \<Rightarrow> 'r \<Rightarrow> ('f, 'h) action list" where
  "handled g os evt r = trace (handleEvent g os evt \<lparr>remote = r, trace = []\<rparr>)"

section \<open>An in-memory remote machine and local file system\<close>

text \<open>
  A reference behaviour for the two libraries, used wherever a statement is about file
  contents: the remote machine is a flat map from path to content. \<open>Remove\<close> fails on a
  missing path; \<open>Create\<close> opens with truncation and returns the path as handle; \<open>Write\<close>
  writes at offset 0 of the file behind the handle. None of them fails otherwise.
\<close>

type_synonym store = "string \<rightharpoonup> bytes"

definition mem_Remove :: "string \<Rightarrow> store \<Rightarrow> error option \<times> store" where
  "mem_Remove p r =
     (case r p of
        None \<Rightarrow> (Some (Error ''file does not exist''), r)
      | Some old \<Rightarrow> (None, r(p := None)))"

definition mem_Create :: "string \<Rightarrow> store \<Rightarrow> (error + string) \<times> store" where
  "mem_Create p r = (Inr p, r(p \<mapsto> []))"

definition mem_Write :: "string \<Rightarrow> bytes \<Rightarrow> store \<Rightarrow> error option \<times> store" where
  "mem_Write h d r =
     (case r h of
        None \<Rightarrow> (Some (Error ''file does not exist''), r)
      | Some old \<Rightarrow> (None, r(h \<mapsto> d @ drop (length d) old)))"

definition mem_Client :: "(string, store) sftp_Client" where
  "mem_Client = \<lparr>Remove = mem_Remove, Create = mem_Create, Write = mem_Write\<rparr>"

text \<open>A local file system given by its files; the handle of an opened file is its path.\<close>

definition mem_os :: "store \<Rightarrow> string local_os" where
  "mem_os fs =
     \<lparr>os_Open = (\<lambda>p. case fs p of
                        None \<Rightarrow> Inl (Error (''open '' @ p @ '': no such file or directory''))
                      | Some d \<Rightarrow> Inr p),
      ioutil_ReadAll = (\<lambda>f. case fs f of
                        None \<Rightarrow> Inl (Error (''read '' @ f @ '': bad file descriptor''))
                      | Some d \<Rightarrow> Inr d)\<rparr>"

definition mem_globals :: "string \<Rightarrow> string \<Rightarrow> (string, store) globals" where
  "mem_globals src dest =
     \<lparr>srcPath = src, destPath = dest, machineName = ''dev'',
      machineConfigPath = ''/home/u/.docker/machines'', machineUser = ''root'',
      rsftp = mem_Client\<rparr>"

section \<open>Command line: the flags of main and checkFlags\<close>

text \<open>
  \<^verbatim>\<open>cli.Context\<close> as the program reads it: \<^verbatim>\<open>GlobalString\<close> and
  \<^verbatim>\<open>GlobalBool\<close> by flag name.
\<close>

record Context =
  GlobalString :: "string \<Rightarrow> string"
  GlobalBool :: "string \<Rightarrow> bool"

text \<open>
  \<^verbatim>\<open>checkFlags\<close>, the \<^verbatim>\<open>Before\<close> hook: the log lines it writes and the error it
  returns (\<open>None\<close> is \<^verbatim>\<open>nil\<close>).
\<close>

definition checkFlags :: "Context \<Rightarrow> ('f, 'h) action list \<times> error option" where
  "checkFlags c =
     (if GlobalString c ''directory'' = [] then
        ([LogError ''you must specify a directory''], Some errFlagError)
      else if GlobalString c ''machine'' = [] then
        ([LogError ''you must specify a machine''], Some errFlagError)
      else if GlobalString c ''destination'' = [] then
        ([LogError ''you must specify a destination path''], Some errFlagError)
      else if GlobalString c ''user'' = [] then
        ([LogError ''you must specify a user''], Some errFlagError)
      else if GlobalBool c ''debug'' = True then
        ([SetLevel DebugLevel], None)
      else ([], None))"

text \<open>
  The flag table of \<^verbatim>\<open>main\<close>. A flag's \<^verbatim>\<open>Name\<close> lists its names separated by
  commas; a string flag has a default \<^verbatim>\<open>Value\<close>. The default of
  \<^verbatim>\<open>machine-path\<close> is computed from \<^verbatim>\<open>$HOME\<close> and is a parameter here.
\<close>

datatype Flag = StringFlag string string | BoolFlag string

definition app_Flags :: "string \<Rightarrow> Flag list" where
  "app_Flags machines_dir =
     [StringFlag ''directory, d'' [],
      StringFlag ''machine, m'' [],
      StringFlag ''machine-path, c'' machines_dir,
      StringFlag ''destination, p'' [],
      StringFlag ''user, u'' ''root'',
      BoolFlag ''debug, D'']"

text \<open>
  How the \<^verbatim>\<open>cli\<close> library resolves a flag: the names are the comma-separated parts
  of \<^verbatim>\<open>Name\<close> without surrounding blanks; the value is the last one given on the
  command line under any of the names, and the default when none is given. The command
  line is the list of (name, value) pairs the user typed; a bare boolean flag has the
  empty value. An unknown name reads as the empty string or \<open>False\<close>.
\<close>

fun split_comma :: "string \<Rightarrow> string list" where
  "split_comma [] = [[]]"
| "split_comma (x # xs) =
     (if x = CHR '','' then [] # split_comma xs
      else (case split_comma xs of
              [] \<Rightarrow> [[x]]
            | w # ws \<Rightarrow> (x # w) # ws))"

definition trim_blanks :: "string \<Rightarrow> string" where
  "trim_blanks w =
     rev (dropWhile (\<lambda>c. c = CHR '' '') (rev (dropWhile (\<lambda>c. c = CHR '' '') w)))"

fun flag_names :: "Flag \<Rightarrow> string list" where
  "flag_names (StringFlag n v) = map trim_blanks (split_comma n)"
| "flag_names (BoolFlag n) = map trim_blanks (split_comma n)"

type_synonym cmdline = "(string \<times> string) list"

definition supplied :: "cmdline \<Rightarrow> string list \<Rightarrow> string option" where
  "supplied args names =
     (case find (\<lambda>(n, v). n \<in> set names) (rev args) of
        None \<Rightarrow> None
      | Some (n, v) \<Rightarrow> Some v)"

fun resolve_string :: "Flag list \<Rightarrow> cmdline \<Rightarrow> string \<Rightarrow> string" where
  "resolve_string [] args name = []"
| "resolve_string (StringFlag n v # fs) args name =
     (if name \<in> set (flag_names (StringFlag n v))
      then (case supplied args (flag_names (StringFlag n v)) of
              None \<Rightarrow> v
            | Some given \<Rightarrow> given)
      else resolve_string fs args name)"
| "resolve_string (BoolFlag n # fs) args name = resolve_string fs args name"

fun resolve_bool :: "Flag list \<Rightarrow> cmdline \<Rightarrow> string \<Rightarrow> bool" where
  "resolve_bool [] args name = False"
| "resolve_bool (BoolFlag n # fs) args name =
     (if name \<in> set (flag_names (BoolFlag n))
      then (case supplied args (flag_names (BoolFlag n)) of
              None \<Rightarrow> False
            | Some given \<Rightarrow> given \<in> set [[], ''1'', ''t'', ''T'', ''true'', ''TRUE'', ''True''])
      else resolve_bool fs args name)"
| "resolve_bool (StringFlag n v # fs) args name = resolve_bool fs args name"

definition context_of :: "Flag list \<Rightarrow> cmdline \<Rightarrow> Context" where
  "context_of flags args =
     \<lparr>GlobalString = resolve_string flags args, GlobalBool = resolve_bool flags args\<rparr>"

section \<open>The keychain\<close>

text \<open>
  \<^verbatim>\<open>keychain\<close> holds one \<^verbatim>\<open>ssh.Signer\<close>, \<^verbatim>\<open>nil\<close> until loaded. \<^verbatim>\<open>loadPEM\<close>
  returns its error together with the keychain it leaves behind; the two library calls
  \<^verbatim>\<open>ioutil.ReadFile\<close> and \<^verbatim>\<open>ssh.ParsePrivateKey\<close> are parameters.
\<close>

record 'k keychain =
  key :: "'k option"

definition loadPEM ::
  "(string \<Rightarrow> error + bytes) \<Rightarrow> (bytes \<Rightarrow> error + 'k) \<Rightarrow> 'k keychain \<Rightarrow> string
     \<Rightarrow> error option \<times> 'k keychain" where
  "loadPEM ioutil_ReadFile ssh_ParsePrivateKey k file =
     (case ioutil_ReadFile file of
        Inl err \<Rightarrow> (Some err, k)
      | Inr buf \<Rightarrow>
          (case ssh_ParsePrivateKey buf of
             Inl err \<Rightarrow> (Some err, k)
           | Inr parsed \<Rightarrow> (None, k\<lparr>key := Some parsed\<rparr>)))"

section \<open>Start-up: loadConfig, watch and main\<close>

record DriverConfig =
  IPAddress :: string
  SSHPort :: int

record MachineConfig =
  Driver :: DriverConfig

record 'k ClientConfig =
  User :: string
  Auth :: "'k keychain list"

text \<open>
  The library calls of the start-up path, as parameters: \<^verbatim>\<open>filepath.Join\<close>, the JSON
  decoder on an opened file, \<^verbatim>\<open>ioutil.ReadFile\<close>, \<^verbatim>\<open>ssh.ParsePrivateKey\<close>,
  \<^verbatim>\<open>ssh.Dial\<close>, \<^verbatim>\<open>RemoteAddr\<close> of the connection, \<^verbatim>\<open>sftp.NewClient\<close>,
  \<^verbatim>\<open>fsnotify.NewWatcher\<close> and \<^verbatim>\<open>watcher.Watch\<close>. \<^verbatim>\<open>sftp.NewClient\<close> returns a
  pair, as in Go: a client value and an error that may be \<^verbatim>\<open>nil\<close>.
\<close>

record ('f, 'k, 'c, 'h, 'r) sys =
  filepath_Join :: "string list \<Rightarrow> string"
  json_Decode :: "'f \<Rightarrow> error + MachineConfig"
  ioutil_ReadFile :: "string \<Rightarrow> error + bytes"
  ssh_ParsePrivateKey :: "bytes \<Rightarrow> error + 'k"
  ssh_Dial :: "string \<Rightarrow> string \<Rightarrow> 'k ClientConfig \<Rightarrow> error + 'c"
  RemoteAddr :: "'c \<Rightarrow> string"
  sftp_NewClient :: "'c \<Rightarrow> ('h, 'r) sftp_Client \<times> error option"
  fsnotify_NewWatcher :: "error option"
  watcher_Watch :: "string \<Rightarrow> error option"

text \<open>The verb \<^verbatim>\<open>%d\<close> of \<^verbatim>\<open>fmt.Sprintf\<close>: an integer in decimal.\<close>

definition digit_char :: "nat \<Rightarrow> char" where
  "digit_char d = ''0123456789'' ! (d mod 10)"

fun show_nat :: "nat \<Rightarrow> string" where
  "show_nat n =
     (if n < 10 then [digit_char n]
      else show_nat (n div 10) @ [digit_char (n mod 10)])"

definition show_int :: "int \<Rightarrow> string" where
  "show_int i = (if i < 0 then CHR ''-'' # show_nat (nat (- i)) else show_nat (nat i))"

definition getMachineConfigDir ::
  "('f, 'k, 'c, 'h, 'r) sys \<Rightarrow> ('h, 'r) globals \<Rightarrow> string" where
  "getMachineConfigDir sys g = filepath_Join sys [machineConfigPath g, machineName g]"

definition loadConfig ::
  "('f, 'k, 'c, 'h, 'r) sys \<Rightarrow> 'f local_os \<Rightarrow> ('h, 'r) globals
     \<Rightarrow> ('f, 'h) action list \<times> (error + MachineConfig)" where
  "loadConfig sys os g =
     (let conf = filepath_Join sys [getMachineConfigDir sys g, ''config.json''] in
      case os_Open os conf of
        Inl err \<Rightarrow> ([OsOpen conf], Inl err)
      | Inr data \<Rightarrow>
          (case json_Decode sys data of
             Inl err \<Rightarrow> ([OsOpen conf], Inl err)
           | Inr c \<Rightarrow> ([OsOpen conf], Inr c)))"

text \<open>
  How a run of \<^verbatim>\<open>watch\<close> ends: \<open>Exited n\<close> is the end of the process with status
  \<open>n\<close> (\<^verbatim>\<open>log.Fatal\<close> exits with 1); \<open>Running g\<close> is the state in which
  \<^verbatim>\<open>watcher.Watch\<close> has succeeded, the two goroutines run and \<^verbatim>\<open>watch\<close> blocks on
  \<^verbatim>\<open>done\<close>, with \<open>g\<close> the package-level variables that every later \<open>handleEvent\<close>
  reads.
\<close>

datatype ('h, 'r) outcome = Exited int | Running "('h, 'r) globals"

text \<open>
  \<^verbatim>\<open>watch\<close>. The result of \<^verbatim>\<open>sftp.NewClient\<close> is bound as \<open>(ftp, err)\<close>;
  \<open>rsftp\<close> is set to \<open>ftp\<close>, and \<open>err\<close> is not read before \<^verbatim>\<open>fsnotify.NewWatcher\<close>
  assigns it again.
\<close>

definition watch ::
  "('f, 'k, 'c, 'h, 'r) sys \<Rightarrow> 'f local_os \<Rightarrow> Context \<Rightarrow> ('h, 'r) globals
     \<Rightarrow> ('f, 'h) action list \<times> ('h, 'r) outcome" where
  "watch sys os c g0 =
     (let g = g0\<lparr>srcPath := GlobalString c ''directory'',
                 destPath := GlobalString c ''destination'',
                 machineName := GlobalString c ''machine'',
                 machineUser := GlobalString c ''user'',
                 machineConfigPath := GlobalString c ''machine-path''\<rparr> in
      case loadConfig sys os g of
        (tr1, Inl err) \<Rightarrow> (tr1 @ [LogFatal (Error_msg err)], Exited 1)
      | (tr1, Inr machineConfig) \<Rightarrow>
          (let keyPath = filepath_Join sys [getMachineConfigDir sys g, ''id_rsa''];
               tr2 = tr1 @ [ReadFile keyPath] in
           case loadPEM (ioutil_ReadFile sys) (ssh_ParsePrivateKey sys) \<lparr>key = None\<rparr> keyPath of
             (Some err, kc) \<Rightarrow> (tr2 @ [LogFatal (Error_msg err)], Exited 1)
           | (None, kc) \<Rightarrow>
               (let sshConfig = \<lparr>User = machineUser g, Auth = [kc]\<rparr>;
                    sshPort = (if SSHPort (Driver machineConfig) \<noteq> 0
                               then SSHPort (Driver machineConfig) else 22);
                    ip = (if IPAddress (Driver machineConfig) \<noteq> []
                          then IPAddress (Driver machineConfig) else ''127.0.0.1'');
                    addr = ip @ '':'' @ show_int sshPort;
                    tr3 = tr2 @ [LogDebug (''connecting host='' @ addr @ '' user='' @ machineUser g),
                                 SshDial ''tcp'' addr] in
                case ssh_Dial sys ''tcp'' addr sshConfig of
                  Inl err \<Rightarrow> (tr3 @ [LogFatal (Error_msg err)], Exited 1)
                | Inr sshClient \<Rightarrow>
                    (case sftp_NewClient sys sshClient of
                       (ftp, err) \<Rightarrow>
                         (let g' = g\<lparr>rsftp := ftp\<rparr>;
                              tr4 = tr3 @
                                [SftpNewClient,
                                 LogDebug (''connected to '' @ RemoteAddr sys sshClient),
                                 LogInfo (''machine sync: src='' @ srcPath g' @ '' dest='' @ destPath g'
                                          @ '' machine='' @ machineName g' @ '' config-dir=''
                                          @ machineConfigPath g'),
                                 NewWatcher] in
                          case fsnotify_NewWatcher sys of
                            Some err' \<Rightarrow> (tr4 @ [LogFatal (Error_msg err')], Exited 1)
                          | None \<Rightarrow>
                              (let tr5 = tr4 @ [WatcherWatch (GlobalString c ''directory'')] in
                               case watcher_Watch sys (GlobalString c ''directory'') of
                                 Some err' \<Rightarrow> (tr5 @ [LogFatal (Error_msg err')], Exited 1)
                               | None \<Rightarrow> (tr5, Running g')))))))"

text \<open>
  \<^verbatim>\<open>main\<close>: \<^verbatim>\<open>app.Run\<close> builds the context from the flag table and the command
  line, runs the \<^verbatim>\<open>Before\<close> hook \<open>checkFlags\<close> and, only when that returns no error,
  the action \<open>watch\<close>. \<^verbatim>\<open>main\<close> drops the error \<^verbatim>\<open>app.Run\<close> returns, so a flag
  error ends the process with status 0.
\<close>

definition main ::
  "('f, 'k, 'c, 'h, 'r) sys \<Rightarrow> 'f local_os \<Rightarrow> string \<Rightarrow> cmdline \<Rightarrow> ('h, 'r) globals
     \<Rightarrow> ('f, 'h) action list \<times> ('h, 'r) outcome" where
  "main sys os machines_dir args g0 =
     (let c = context_of (app_Flags machines_dir) args in
      case checkFlags c of
        (tr, Some err) \<Rightarrow> (tr, Exited 0)
      | (tr, None) \<Rightarrow>
          (case watch sys os c g0 of
             (tr', out) \<Rightarrow> (tr @ tr', out)))"

text \<open>
  The reporting goroutine of \<^verbatim>\<open>watch\<close>: every error received on the error channel
  is logged with the prefix \<^verbatim>\<open>error during sync: \<close>.
\<close>

definition errorSink :: "error list \<Rightarrow> ('f, 'h) action list" where
  "errorSink errs = map (\<lambda>err. LogError (''error during sync: '' @ Error_msg err)) errs"

section \<open>Concrete inputs\<close>

text \<open>
  The inputs at which statements are evaluated: a machine directory \<^verbatim>\<open>/m/dev\<close> with a
  configuration and a key, a watched directory \<^verbatim>\<open>/src\<close> holding \<^verbatim>\<open>notes.txt\<close> with
  content \<^verbatim>\<open>hello\<close>, the destination \<^verbatim>\<open>/dest\<close>. \<open>failed_Client\<close> is a client value
  on which no call succeeds; \<open>demo_sys\<close> takes the answer of \<^verbatim>\<open>sftp.NewClient\<close> as its
  argument.
\<close>

definition join_slash :: "string list \<Rightarrow> string" where
  "join_slash ps = foldr (\<lambda>p acc. if acc = [] then p else p @ ''/'' @ acc) ps []"

definition failed_Client :: "(string, store) sftp_Client" where
  "failed_Client =
     \<lparr>Remove = (\<lambda>p r. (Some (Error ''sftp: no session''), r)),
      Create = (\<lambda>p r. (Inl (Error ''sftp: no session''), r)),
      Write = (\<lambda>h d r. (Some (Error ''sftp: no session''), r))\<rparr>"

definition demo_sys ::
  "(string, store) sftp_Client \<times> error option \<Rightarrow> (string, string, string, string, store) sys" where
  "demo_sys new_client =
     \<lparr>filepath_Join = join_slash,
      json_Decode = (\<lambda>f. Inr \<lparr>Driver = \<lparr>IPAddress = ''192.168.99.100'', SSHPort = 0\<rparr>\<rparr>),
      ioutil_ReadFile = (\<lambda>p. if p = ''/m/dev/id_rsa'' then Inr ''PEM''
                              else Inl (Error ''no such file or directory'')),
      ssh_ParsePrivateKey = (\<lambda>b. if b = ''PEM'' then Inr ''signer''
                              else Inl (Error ''ssh: no key found'')),
      ssh_Dial = (\<lambda>n a cfg. Inr a),
      RemoteAddr = (\<lambda>c. c),
      sftp_NewClient = (\<lambda>c. new_client),
      fsnotify_NewWatcher = None,
      watcher_Watch = (\<lambda>d. None)\<rparr>"

definition demo_files :: store where
  "demo_files = [''/m/dev/config.json'' \<mapsto> ''{}'', ''/src/notes.txt'' \<mapsto> ''hello'']"

definition demo_args :: cmdline where
  "demo_args = [(''d'', ''/src''), (''machine'', ''dev''), (''p'', ''/dest'')]"

definition zero_globals :: "(string, store) globals" where
  "zero_globals = \<lparr>srcPath = [], destPath = [], machineName = [], machineConfigPath = [],
      machineUser = [], rsftp = failed_Client\<rparr>"

definition notes_event :: "event_kind \<Rightarrow> FileEvent" where
  "notes_event k = \<lparr>Name = ''/src/notes.txt'', kind = k\<rparr>"

definition start :: "(string, string, store) state" where
  "start = \<lparr>remote = Map.empty, trace = []\<rparr>"

text \<open>
  A key directory for \<open>loadPEM\<close>: \<^verbatim>\<open>id_rsa\<close> parses as a private key,
  \<^verbatim>\<open>id_rsa.pub\<close> reads but does not parse, any other path does not read.
\<close>

definition demo_ReadFile :: "string \<Rightarrow> error + bytes" where
  "demo_ReadFile p =
     (if p = ''/m/dev/id_rsa'' then Inr ''PEM''
      else if p = ''/m/dev/id_rsa.pub'' then Inr ''ssh-rsa AAAA''
      else Inl (Error ''no such file or directory''))"

definition demo_ParsePrivateKey :: "bytes \<Rightarrow> error + string" where
  "demo_ParsePrivateKey b =
     (if b = ''PEM'' then Inr ''signer'' else Inl (Error ''ssh: no key found''))"

section \<open>Properties of handleEvent\<close>

lemmas call_defs = call_Open_def call_ReadAll_def call_Remove_def call_Create_def call_Write_def emit_def
lemmas mem_defs = mem_Client_def mem_Remove_def mem_Create_def mem_Write_def
lemmas demo_defs = mem_globals_def mem_os_def demo_files_def notes_event_def start_def
lemmas handle_defs = handled_def handleEvent_def IsDelete_def Let_def remote_ops_def

text \<open>A call extends the trace it is given by what \<open>handled\<close> lists.\<close>

lemma handleEvent_trace:
  "trace (handleEvent g os evt s) = trace s @ handled g os evt (remote s)"
  by (simp add: handled_def handleEvent_def call_defs Let_def
      split: prod.splits option.splits sum.splits)

text \<open>No call sends on the error channel, and no call touches the mutex.\<close>

lemma handled_no_chan: "chan_sends (handled g os evt r) = []"
  by (simp add: handled_def handleEvent_def call_defs Let_def
      split: prod.splits option.splits sum.splits)

lemma handled_no_mutex: "filter is_mutex_op (handled g os evt r) = []"
  by (simp add: handled_def handleEvent_def call_defs Let_def
      split: prod.splits option.splits sum.splits)

text \<open>
  Claim C5. For an event of kind Deleted on path \<open>P\<close>, one call of \<open>handleEvent\<close> does
  exactly this: it logs the deletion, issues one remote remove against
  \<^verbatim>\<open>destPath + "/" + P\<close>, and, when that remove fails, logs the error once and stops.
  No remote create, no remote write and no second remove is issued.
\<close>

theorem delete_issues_one_remove:
  "kind evt = Deleted \<Longrightarrow>
     handled g os evt r =
       [LogInfo (''deleting '' @ destPath g @ ''/'' @ Name evt),
        SftpRemove (destPath g @ ''/'' @ Name evt)] @
       (case fst (Remove (rsftp g) (destPath g @ ''/'' @ Name evt) r) of
          None \<Rightarrow> []
        | Some err \<Rightarrow> [LogError (Error_msg err)])"
  by (simp add: handled_def handleEvent_def IsDelete_def call_defs Let_def
      split: prod.splits option.splits sum.splits)

text \<open>
  The statement at the concrete input: deleting \<^verbatim>\<open>/src/notes.txt\<close> on an empty remote
  machine issues the one remove, which fails, and reports it.
\<close>

theorem delete_issues_one_remove_witness:
  "kind (notes_event Deleted) = Deleted \<and>
   handled (mem_globals ''/src'' ''/dest'') (mem_os demo_files) (notes_event Deleted) Map.empty =
     [LogInfo ''deleting /dest//src/notes.txt'', SftpRemove ''/dest//src/notes.txt'',
      LogError ''file does not exist'']"
proof -
  have k: "kind (notes_event Deleted) = Deleted"
    by (simp add: notes_event_def)
  from delete_issues_one_remove [OF k, of "mem_globals ''/src'' ''/dest''" "mem_os demo_files" Map.empty]
  show ?thesis using k
    by (simp add: mem_defs demo_defs)
qed

text \<open>
  Claim C6. For an event of any kind but Deleted, one call of \<open>handleEvent\<close> performs, in
  this order: open the local file at the event's path; remote remove of the mapped
  path, whose result is not looked at; remote create at the mapped path; read the local
  file whole; one remote write of everything read. The first failure among open,
  create, read and write is logged and ends the call, so that nothing later is issued.
\<close>

theorem update_sequence:
  "kind evt \<noteq> Deleted \<Longrightarrow>
     handled g os evt r =
       LogInfo (''updating '' @ destPath g @ ''/'' @ Name evt) # OsOpen (Name evt) #
       (case os_Open os (Name evt) of
          Inl err \<Rightarrow> [LogError (Error_msg err)]
        | Inr localFile \<Rightarrow>
            SftpRemove (destPath g @ ''/'' @ Name evt) #
            SftpCreate (destPath g @ ''/'' @ Name evt) #
            (case fst (Create (rsftp g) (destPath g @ ''/'' @ Name evt)
                         (snd (Remove (rsftp g) (destPath g @ ''/'' @ Name evt) r))) of
               Inl err \<Rightarrow> [LogError (Error_msg err)]
             | Inr remoteFile \<Rightarrow>
                 ReadAll localFile #
                 (case ioutil_ReadAll os localFile of
                    Inl err \<Rightarrow> [LogError (Error_msg err)]
                  | Inr data \<Rightarrow>
                      SftpWrite remoteFile data #
                      (case fst (Write (rsftp g) remoteFile data
                                  (snd (Create (rsftp g) (destPath g @ ''/'' @ Name evt)
                                     (snd (Remove (rsftp g) (destPath g @ ''/'' @ Name evt) r))))) of
                         None \<Rightarrow> []
                       | Some err \<Rightarrow> [LogError (Error_msg err)]))))"
  by (simp add: handled_def handleEvent_def IsDelete_def call_defs Let_def
      split: prod.splits option.splits sum.splits)

text \<open>
  The statement at the concrete input: a Renamed event for the readable file
  \<^verbatim>\<open>/src/notes.txt\<close> on an empty remote machine (the remove fails and is ignored).
\<close>

theorem update_sequence_witness:
  "kind (notes_event Renamed) \<noteq> Deleted \<and>
   handled (mem_globals ''/src'' ''/dest'') (mem_os demo_files) (notes_event Renamed) Map.empty =
     [LogInfo ''updating /dest//src/notes.txt'', OsOpen ''/src/notes.txt'',
      SftpRemove ''/dest//src/notes.txt'', SftpCreate ''/dest//src/notes.txt'',
      ReadAll ''/src/notes.txt'', SftpWrite ''/dest//src/notes.txt'' ''hello'']"
proof -
  have k: "kind (notes_event Renamed) \<noteq> Deleted"
    by (simp add: notes_event_def)
  from update_sequence [OF k, of "mem_globals ''/src'' ''/dest''" "mem_os demo_files" Map.empty]
  show ?thesis using k
    by (simp add: mem_defs demo_defs)
qed

text \<open>
  Claim C7. On the in-memory remote machine, handling the same Modified event a second
  time, with the same local file system, leaves the remote machine exactly as the first
  run left it: every remote file, the mapped one included, has identical bytes.
\<close>

theorem modified_idempotent:
  "rsftp g = mem_Client \<Longrightarrow> kind evt = Modified \<Longrightarrow>
     remote (handleEvent g os evt (handleEvent g os evt s)) = remote (handleEvent g os evt s)"
  by (auto simp add: handleEvent_def IsDelete_def call_defs Let_def mem_defs
      split: prod.splits option.splits sum.splits)

text \<open>
  The statement at the concrete input, where the mapped remote file holds \<^verbatim>\<open>hello\<close>
  after either run.
\<close>

theorem modified_idempotent_witness:
  "rsftp (mem_globals ''/src'' ''/dest'') = mem_Client \<and> kind (notes_event Modified) = Modified \<and>
   remote (handleEvent (mem_globals ''/src'' ''/dest'') (mem_os demo_files) (notes_event Modified)
            (handleEvent (mem_globals ''/src'' ''/dest'') (mem_os demo_files) (notes_event Modified) start))
     = remote (handleEvent (mem_globals ''/src'' ''/dest'') (mem_os demo_files) (notes_event Modified) start)
   \<and> remote (handleEvent (mem_globals ''/src'' ''/dest'') (mem_os demo_files) (notes_event Modified) start)
       ''/dest//src/notes.txt'' = Some ''hello''"
proof -
  have g: "rsftp (mem_globals ''/src'' ''/dest'') = mem_Client"
    by (simp add: mem_globals_def)
  have k: "kind (notes_event Modified) = Modified"
    by (simp add: notes_event_def)
  have c: "remote (handleEvent (mem_globals ''/src'' ''/dest'') (mem_os demo_files) (notes_event Modified) start)
       ''/dest//src/notes.txt'' = Some ''hello''"
    by (simp add: handle_defs call_defs mem_defs demo_defs)
  from modified_idempotent [OF g k, of "mem_os demo_files" start] g k c
  show ?thesis by simp
qed

section \<open>Where the code departs from the described behaviour\<close>

text \<open>
  Claim C3, at its own scenario: watch root \<^verbatim>\<open>/src\<close>, destination \<^verbatim>\<open>/dest\<close>, a
  Created event for \<^verbatim>\<open>/src/notes.txt\<close> with content \<^verbatim>\<open>hello\<close>. The remote file
  \<^verbatim>\<open>/dest/notes.txt\<close> does not hold \<^verbatim>\<open>hello\<close> afterwards: the event's path is not
  made relative to the watch root.
\<close>

theorem notes_not_at_dest_notes:
  "remote (handleEvent (mem_globals ''/src'' ''/dest'') (mem_os demo_files)
             (notes_event Created) start) ''/dest/notes.txt'' \<noteq> Some ''hello''"
  by (simp add: handle_defs call_defs mem_defs demo_defs)

text \<open>
  Claim C3 as amended. The remote path is \<^verbatim>\<open>destPath + "/" + evt.Name\<close> with the
  event's path as it is. On the in-memory remote machine, an event that is not a
  deletion, for a local file that opens and reads as \<open>d\<close>, issues remove, create and
  write against that path and leaves \<open>d\<close> there; a deletion event for the same path
  afterwards issues one remove against it and the file is gone.
\<close>

theorem remote_path_is_dest_slash_name:
  "rsftp g = mem_Client \<Longrightarrow> kind evt \<noteq> Deleted \<Longrightarrow>
   os_Open os (Name evt) = Inr f \<Longrightarrow> ioutil_ReadAll os f = Inr d \<Longrightarrow>
     remote_ops (handled g os evt (remote s)) =
       [SftpRemove (destPath g @ ''/'' @ Name evt), SftpCreate (destPath g @ ''/'' @ Name evt),
        SftpWrite (destPath g @ ''/'' @ Name evt) d]
     \<and> remote (handleEvent g os evt s) (destPath g @ ''/'' @ Name evt) = Some d
     \<and> remote_ops (handled g os (evt\<lparr>kind := Deleted\<rparr>) (remote (handleEvent g os evt s))) =
       [SftpRemove (destPath g @ ''/'' @ Name evt)]
     \<and> remote (handleEvent g os (evt\<lparr>kind := Deleted\<rparr>) (handleEvent g os evt s))
          (destPath g @ ''/'' @ Name evt) = None"
  by (simp add: handle_defs call_defs mem_defs split: option.splits)

text \<open>
  The amended statement at the scenario of the claim: the remote file is
  \<^verbatim>\<open>/dest//src/notes.txt\<close>.
\<close>

theorem remote_path_is_dest_slash_name_witness:
  "rsftp (mem_globals ''/src'' ''/dest'') = mem_Client \<and> kind (notes_event Created) \<noteq> Deleted \<and>
   os_Open (mem_os demo_files) (Name (notes_event Created)) = Inr ''/src/notes.txt'' \<and>
   ioutil_ReadAll (mem_os demo_files) ''/src/notes.txt'' = Inr ''hello'' \<and>
   remote (handleEvent (mem_globals ''/src'' ''/dest'') (mem_os demo_files) (notes_event Created) start)
     ''/dest//src/notes.txt'' = Some ''hello'' \<and>
   remote (handleEvent (mem_globals ''/src'' ''/dest'') (mem_os demo_files)
            (notes_event Deleted)
            (handleEvent (mem_globals ''/src'' ''/dest'') (mem_os demo_files) (notes_event Created) start))
     ''/dest//src/notes.txt'' = None"
proof -
  have g: "rsftp (mem_globals ''/src'' ''/dest'') = mem_Client"
    by (simp add: mem_globals_def)
  have k: "kind (notes_event Created) \<noteq> Deleted"
    by (simp add: notes_event_def)
  have o: "os_Open (mem_os demo_files) (Name (notes_event Created)) = Inr ''/src/notes.txt''"
    by (simp add: demo_defs)
  have r: "ioutil_ReadAll (mem_os demo_files) ''/src/notes.txt'' = Inr ''hello''"
    by (simp add: demo_defs)
  have e: "(notes_event Created)\<lparr>kind := Deleted\<rparr> = notes_event Deleted"
    by (simp add: notes_event_def)
  have p: "destPath (mem_globals ''/src'' ''/dest'') @ ''/'' @ Name (notes_event Created)
             = ''/dest//src/notes.txt''"
    by (simp add: demo_defs)
  from remote_path_is_dest_slash_name [OF g k o r, of start] g k o r show ?thesis
    unfolding e p by simp
qed

text \<open>
  Claim C2, evaluated at a Created event whose local file \<^verbatim>\<open>/src/missing.txt\<close> does
  not exist: no remote operation is issued and the failure is logged once, directly,
  but nothing is sent on the error channel, so the reporting goroutine logs nothing.
\<close>

theorem unreadable_file_failure_not_sent:
  "chan_sends (handled (mem_globals ''/src'' ''/dest'') (mem_os demo_files)
                 \<lparr>Name = ''/src/missing.txt'', kind = Created\<rparr> Map.empty) = []
   \<and> errorSink (chan_sends (handled (mem_globals ''/src'' ''/dest'') (mem_os demo_files)
                 \<lparr>Name = ''/src/missing.txt'', kind = Created\<rparr> Map.empty)) = ([] :: (string,string) action list)
   \<and> reported (handled (mem_globals ''/src'' ''/dest'') (mem_os demo_files)
                 \<lparr>Name = ''/src/missing.txt'', kind = Created\<rparr> Map.empty)
       = [''open /src/missing.txt: no such file or directory'']
   \<and> remote_ops (handled (mem_globals ''/src'' ''/dest'') (mem_os demo_files)
                 \<lparr>Name = ''/src/missing.txt'', kind = Created\<rparr> Map.empty) = []"
  by (simp add: handle_defs call_defs mem_defs demo_defs errorSink_def)

text \<open>
  Claim C4, evaluated at a Modified event for the readable file
  \<^verbatim>\<open>/src/notes.txt\<close>: the call issues remove, create and write on the shared session
  and never locks or unlocks the mutex.
\<close>

theorem handleEvent_takes_no_lock:
  "filter is_mutex_op (handled (mem_globals ''/src'' ''/dest'') (mem_os demo_files)
                 (notes_event Modified) Map.empty) = []
   \<and> remote_ops (handled (mem_globals ''/src'' ''/dest'') (mem_os demo_files)
                 (notes_event Modified) Map.empty)
       = [SftpRemove ''/dest//src/notes.txt'', SftpCreate ''/dest//src/notes.txt'',
          SftpWrite ''/dest//src/notes.txt'' ''hello'']"
  by (simp add: handle_defs call_defs mem_defs demo_defs)

text \<open>
  The error that \<^verbatim>\<open>sftp.NewClient\<close> returns has no influence on \<^verbatim>\<open>watch\<close>: with the
  same client value, any two errors (or none) give the same trace and the same outcome.
\<close>

lemma watch_NewClient_error_unread:
  "watch (sys\<lparr>sftp_NewClient := (\<lambda>c. (cl, e1))\<rparr>) os c g0 =
   watch (sys\<lparr>sftp_NewClient := (\<lambda>c. (cl, e2))\<rparr>) os c g0"
  by (simp add: watch_def loadConfig_def getMachineConfigDir_def Let_def
      cong: sum.case_cong option.case_cong prod.case_cong)

text \<open>
  Claim C1, evaluated at a start-up in which everything succeeds except
  \<^verbatim>\<open>sftp.NewClient\<close>, which returns an error: \<^verbatim>\<open>watch\<close> logs no fatal error, starts
  the directory watch and keeps running with the client value returned beside the
  error; an event handled afterwards issues its remote operations on that client.
\<close>

theorem watch_ignores_NewClient_error:
  "watch (demo_sys (failed_Client, Some (Error ''ssh: subsystem request failed'')))
         (mem_os demo_files) (context_of (app_Flags ''/m'') demo_args) zero_globals =
     ([OsOpen ''/m/dev/config.json'', ReadFile ''/m/dev/id_rsa'',
       LogDebug ''connecting host=192.168.99.100:22 user=root'',
       SshDial ''tcp'' ''192.168.99.100:22'', SftpNewClient,
       LogDebug ''connected to 192.168.99.100:22'',
       LogInfo ''machine sync: src=/src dest=/dest machine=dev config-dir=/m'',
       NewWatcher, WatcherWatch ''/src''],
      Running \<lparr>srcPath = ''/src'', destPath = ''/dest'', machineName = ''dev'',
               machineConfigPath = ''/m'', machineUser = ''root'', rsftp = failed_Client\<rparr>)
   \<and> remote_ops (handled \<lparr>srcPath = ''/src'', destPath = ''/dest'', machineName = ''dev'',
               machineConfigPath = ''/m'', machineUser = ''root'', rsftp = failed_Client\<rparr>
          (mem_os demo_files) (notes_event Created) Map.empty) =
       [SftpRemove ''/dest//src/notes.txt'', SftpCreate ''/dest//src/notes.txt'']"
  by (simp add: watch_def loadConfig_def getMachineConfigDir_def loadPEM_def demo_sys_def
      join_slash_def mem_os_def demo_files_def context_of_def app_Flags_def demo_args_def
      supplied_def trim_blanks_def zero_globals_def show_int_def digit_char_def Let_def
      handle_defs call_defs failed_Client_def notes_event_def)

section \<open>The keychain and the flags\<close>

text \<open>
  Claim C9. \<open>loadPEM\<close> returns the error of a failed read or of a failed parse and
  leaves the keychain as it was; it sets the key, and returns no error, exactly when
  both the read and the parse succeed.
\<close>

theorem loadPEM_atomic:
  "(\<forall>e. rf file = Inl e \<longrightarrow> loadPEM rf pk k file = (Some e, k))
   \<and> (\<forall>buf e. rf file = Inr buf \<longrightarrow> pk buf = Inl e \<longrightarrow> loadPEM rf pk k file = (Some e, k))
   \<and> (\<forall>buf p. rf file = Inr buf \<longrightarrow> pk buf = Inr p \<longrightarrow>
         loadPEM rf pk k file = (None, k\<lparr>key := Some p\<rparr>))
   \<and> (fst (loadPEM rf pk k file) \<noteq> None \<longrightarrow> snd (loadPEM rf pk k file) = k)
   \<and> (snd (loadPEM rf pk k file) \<noteq> k \<longrightarrow>
         (\<exists>buf p. rf file = Inr buf \<and> pk buf = Inr p \<and> fst (loadPEM rf pk k file) = None))"
  by (auto simp add: loadPEM_def split: sum.splits)

text \<open>
  The three cases at concrete inputs, on a keychain that already holds a key: a missing
  file and a file that is no private key leave the old key in place, a good key file
  replaces it.
\<close>

theorem loadPEM_atomic_witness:
  "demo_ReadFile ''/m/dev/missing'' = Inl (Error ''no such file or directory'')
   \<and> loadPEM demo_ReadFile demo_ParsePrivateKey \<lparr>key = Some ''old''\<rparr> ''/m/dev/missing''
       = (Some (Error ''no such file or directory''), \<lparr>key = Some ''old''\<rparr>)
   \<and> demo_ReadFile ''/m/dev/id_rsa.pub'' = Inr ''ssh-rsa AAAA''
   \<and> demo_ParsePrivateKey ''ssh-rsa AAAA'' = Inl (Error ''ssh: no key found'')
   \<and> loadPEM demo_ReadFile demo_ParsePrivateKey \<lparr>key = Some ''old''\<rparr> ''/m/dev/id_rsa.pub''
       = (Some (Error ''ssh: no key found''), \<lparr>key = Some ''old''\<rparr>)
   \<and> demo_ReadFile ''/m/dev/id_rsa'' = Inr ''PEM''
   \<and> demo_ParsePrivateKey ''PEM'' = Inr ''signer''
   \<and> loadPEM demo_ReadFile demo_ParsePrivateKey \<lparr>key = Some ''old''\<rparr> ''/m/dev/id_rsa''
       = (None, \<lparr>key = Some ''signer''\<rparr>)"
proof -
  have a: "demo_ReadFile ''/m/dev/missing'' = Inl (Error ''no such file or directory'')"
    by (simp add: demo_ReadFile_def)
  have b: "demo_ReadFile ''/m/dev/id_rsa.pub'' = Inr ''ssh-rsa AAAA''"
    by (simp add: demo_ReadFile_def)
  have b': "demo_ParsePrivateKey ''ssh-rsa AAAA'' = Inl (Error ''ssh: no key found'')"
    by (simp add: demo_ParsePrivateKey_def)
  have c: "demo_ReadFile ''/m/dev/id_rsa'' = Inr ''PEM''"
    by (simp add: demo_ReadFile_def)
  have c': "demo_ParsePrivateKey ''PEM'' = Inr ''signer''"
    by (simp add: demo_ParsePrivateKey_def)
  note t1 = loadPEM_atomic [of demo_ReadFile "''/m/dev/missing''" demo_ParsePrivateKey "\<lparr>key = Some ''old''\<rparr>"]
  note t2 = loadPEM_atomic [of demo_ReadFile "''/m/dev/id_rsa.pub''" demo_ParsePrivateKey "\<lparr>key = Some ''old''\<rparr>"]
  note t3 = loadPEM_atomic [of demo_ReadFile "''/m/dev/id_rsa''" demo_ParsePrivateKey "\<lparr>key = Some ''old''\<rparr>"]
  from t1 a have r1: "loadPEM demo_ReadFile demo_ParsePrivateKey \<lparr>key = Some ''old''\<rparr> ''/m/dev/missing''
       = (Some (Error ''no such file or directory''), \<lparr>key = Some ''old''\<rparr>)"
    by blast
  from t2 b b' have r2: "loadPEM demo_ReadFile demo_ParsePrivateKey \<lparr>key = Some ''old''\<rparr> ''/m/dev/id_rsa.pub''
       = (Some (Error ''ssh: no key found''), \<lparr>key = Some ''old''\<rparr>)"
    by blast
  from t3 c c' have r3: "loadPEM demo_ReadFile demo_ParsePrivateKey \<lparr>key = Some ''old''\<rparr> ''/m/dev/id_rsa''
       = (None, \<lparr>key = Some ''old''\<rparr>\<lparr>key := Some ''signer''\<rparr>)"
    by blast
  from a b b' c c' r1 r2 r3 show ?thesis by simp
qed

text \<open>
  Claim C8. \<open>checkFlags\<close> returns the flag error exactly when one of
  \<^verbatim>\<open>directory\<close>, \<^verbatim>\<open>machine\<close>, \<^verbatim>\<open>destination\<close>, \<^verbatim>\<open>user\<close> reads as the empty
  string, and returns no error exactly when all four are non-empty. When it returns an
  error, \<^verbatim>\<open>main\<close> ends with what \<open>checkFlags\<close> logged and never reaches
  \<^verbatim>\<open>ssh.Dial\<close>.
\<close>

theorem checkFlags_fails_iff:
  "(snd (checkFlags c) = Some errFlagError \<longleftrightarrow>
      (GlobalString c ''directory'' = [] \<or> GlobalString c ''machine'' = [] \<or>
       GlobalString c ''destination'' = [] \<or> GlobalString c ''user'' = []))
   \<and> (snd (checkFlags c) = None \<longleftrightarrow>
      (GlobalString c ''directory'' \<noteq> [] \<and> GlobalString c ''machine'' \<noteq> [] \<and>
       GlobalString c ''destination'' \<noteq> [] \<and> GlobalString c ''user'' \<noteq> []))
   \<and> (snd (checkFlags (context_of (app_Flags mp) args)) \<noteq> None \<longrightarrow>
        snd (main sys os mp args g0) = Exited 0 \<and>
        fst (main sys os mp args g0) = fst (checkFlags (context_of (app_Flags mp) args)) \<and>
        (\<forall>n a. SshDial n a \<notin> set (fst (main sys os mp args g0))))"
  by (auto simp add: checkFlags_def main_def Let_def split: prod.splits option.splits)

text \<open>
  The statement at two command lines: without \<^verbatim>\<open>--machine\<close> the check fails and
  \<^verbatim>\<open>main\<close> ends after the one log line; with all flags given it passes.
\<close>

theorem checkFlags_fails_iff_witness:
  "snd (checkFlags (context_of (app_Flags ''/m'') [(''d'', ''/src''), (''p'', ''/dest'')])
          :: (string, string) action list \<times> error option) \<noteq> None
   \<and> resolve_string (app_Flags ''/m'') [(''d'', ''/src''), (''p'', ''/dest'')] ''machine'' = []
   \<and> main (demo_sys (mem_Client, None)) (mem_os demo_files) ''/m''
          [(''d'', ''/src''), (''p'', ''/dest'')] zero_globals
       = ([LogError ''you must specify a machine''], Exited 0)
   \<and> snd (checkFlags (context_of (app_Flags ''/m'') demo_args)
          :: (string, string) action list \<times> error option) = None"
proof -
  let ?args = "[(''d'', ''/src''), (''p'', ''/dest'')]"
  let ?c = "context_of (app_Flags ''/m'') ?args"
  let ?chk = "checkFlags ?c :: (string, string) action list \<times> error option"
  let ?ok = "checkFlags (context_of (app_Flags ''/m'') demo_args)
               :: (string, string) action list \<times> error option"
  let ?run = "main (demo_sys (mem_Client, None)) (mem_os demo_files) ''/m'' ?args zero_globals"
  have m: "resolve_string (app_Flags ''/m'') ?args ''machine'' = []"
    by (simp add: app_Flags_def trim_blanks_def supplied_def)
  have f: "fst ?chk = [LogError ''you must specify a machine'']"
    by (simp add: checkFlags_def context_of_def app_Flags_def trim_blanks_def supplied_def)
  have n: "snd ?chk \<noteq> None"
    by (simp add: checkFlags_def context_of_def app_Flags_def trim_blanks_def supplied_def)
  have g: "GlobalString (context_of (app_Flags ''/m'') demo_args) ''directory'' \<noteq> [] \<and>
           GlobalString (context_of (app_Flags ''/m'') demo_args) ''machine'' \<noteq> [] \<and>
           GlobalString (context_of (app_Flags ''/m'') demo_args) ''destination'' \<noteq> [] \<and>
           GlobalString (context_of (app_Flags ''/m'') demo_args) ''user'' \<noteq> []"
    by (simp add: context_of_def app_Flags_def trim_blanks_def supplied_def demo_args_def)
  have t1: "snd ?run = Exited 0 \<and> fst ?run = fst ?chk"
    using checkFlags_fails_iff [of ?c "''/m''" ?args "demo_sys (mem_Client, None)"
        "mem_os demo_files" zero_globals] n
    by blast
  have t2: "snd ?ok = None"
    using checkFlags_fails_iff [of "context_of (app_Flags ''/m'') demo_args"] g
    by blast
  from n m t1 f t2 show ?thesis
    by (simp add: prod_eq_iff)
qed

text \<open>
  The names of the user flag, its resolution against a command line, and what the
  user message of \<open>checkFlags\<close> implies.
\<close>

lemma user_names: "flag_names (StringFlag ''user, u'' v) = [''user'', ''u'']"
  by (simp add: trim_blanks_def)

lemma resolve_user:
  "resolve_string (app_Flags mp) args ''user'' =
     (case supplied args [''user'', ''u''] of None \<Rightarrow> ''root'' | Some v \<Rightarrow> v)"
  by (simp add: app_Flags_def trim_blanks_def)

lemma supplied_None_iff:
  "supplied args names = None \<longleftrightarrow> (\<forall>(n, v) \<in> set args. n \<notin> set names)"
proof -
  have "supplied args names = None \<longleftrightarrow> find (\<lambda>(n, v). n \<in> set names) (rev args) = None"
    by (simp add: supplied_def split: option.splits prod.splits)
  also have "\<dots> \<longleftrightarrow> (\<forall>(n, v) \<in> set args. n \<notin> set names)"
    by (auto simp add: find_None_iff)
  finally show ?thesis .
qed

lemma user_message_iff:
  "LogError ''you must specify a user'' \<in> set (fst (checkFlags c)) \<Longrightarrow> GlobalString c ''user'' = []"
  by (simp add: checkFlags_def split: if_splits)

text \<open>
  Claim C10. In the flag table the default of \<^verbatim>\<open>user\<close> is \<^verbatim>\<open>root\<close> and the defaults
  of \<^verbatim>\<open>directory\<close>, \<^verbatim>\<open>machine\<close>, \<^verbatim>\<open>destination\<close> are empty. On a command line
  that gives neither \<^verbatim>\<open>--user\<close> nor \<^verbatim>\<open>-u\<close> the user resolves to \<^verbatim>\<open>root\<close> and
  \<open>checkFlags\<close> does not log the user message; whenever it logs that message, the command
  line gave the user flag with an empty value.
\<close>

theorem user_flag_default_root:
  "resolve_string (app_Flags mp) [] ''user'' = ''root''
   \<and> resolve_string (app_Flags mp) [] ''directory'' = []
   \<and> resolve_string (app_Flags mp) [] ''machine'' = []
   \<and> resolve_string (app_Flags mp) [] ''destination'' = []
   \<and> ((\<forall>(n, v) \<in> set args. n \<noteq> ''user'' \<and> n \<noteq> ''u'') \<longrightarrow>
        resolve_string (app_Flags mp) args ''user'' = ''root'' \<and>
        LogError ''you must specify a user'' \<notin> set (fst (checkFlags (context_of (app_Flags mp) args))))
   \<and> (LogError ''you must specify a user'' \<in> set (fst (checkFlags (context_of (app_Flags mp) args))) \<longrightarrow>
        supplied args [''user'', ''u''] = Some [])"
proof -
  have d: "resolve_string (app_Flags mp) [] ''user'' = ''root''
      \<and> resolve_string (app_Flags mp) [] ''directory'' = []
      \<and> resolve_string (app_Flags mp) [] ''machine'' = []
      \<and> resolve_string (app_Flags mp) [] ''destination'' = []"
    by (simp add: app_Flags_def trim_blanks_def supplied_def)
  have omitted: "resolve_string (app_Flags mp) args ''user'' = ''root'' \<and>
        LogError ''you must specify a user'' \<notin> set (fst (checkFlags (context_of (app_Flags mp) args)))"
    if h: "\<forall>(n, v) \<in> set args. n \<noteq> ''user'' \<and> n \<noteq> ''u''"
  proof -
    from h have "supplied args [''user'', ''u''] = None"
      by (auto simp add: supplied_None_iff)
    then have r: "resolve_string (app_Flags mp) args ''user'' = ''root''"
      by (simp add: resolve_user)
    then have "GlobalString (context_of (app_Flags mp) args) ''user'' \<noteq> []"
      by (simp add: context_of_def)
    with user_message_iff [of "context_of (app_Flags mp) args"] r show ?thesis
      by blast
  qed
  have given: "supplied args [''user'', ''u''] = Some []"
    if h: "LogError ''you must specify a user'' \<in> set (fst (checkFlags (context_of (app_Flags mp) args)))"
  proof -
    from user_message_iff [OF h] have "resolve_string (app_Flags mp) args ''user'' = []"
      by (simp add: context_of_def)
    then show ?thesis
      by (simp add: resolve_user split: option.splits)
  qed
  from d omitted given show ?thesis by blast
qed

text \<open>
  The statement at two command lines: one without the user flag, and the same with
  \<^verbatim>\<open>-u ""\<close> appended.
\<close>

theorem user_flag_default_root_witness:
  "supplied demo_args [''user'', ''u''] = None
   \<and> resolve_string (app_Flags ''/m'') demo_args ''user'' = ''root''
   \<and> fst (checkFlags (context_of (app_Flags ''/m'') demo_args)) = []
   \<and> LogError ''you must specify a user''
        \<in> set (fst (checkFlags (context_of (app_Flags ''/m'') (demo_args @ [(''u'', [])]))))
   \<and> supplied (demo_args @ [(''u'', [])]) [''user'', ''u''] = Some []"
proof -
  have o: "\<forall>(n, v) \<in> set demo_args. n \<noteq> ''user'' \<and> n \<noteq> ''u''"
    by (simp add: demo_args_def)
  have l: "fst (checkFlags (context_of (app_Flags ''/m'') demo_args)) = []"
    by (simp add: checkFlags_def context_of_def app_Flags_def trim_blanks_def supplied_def
        demo_args_def)
  have m: "LogError ''you must specify a user''
        \<in> set (fst (checkFlags (context_of (app_Flags ''/m'') (demo_args @ [(''u'', [])]))))"
    by (simp add: checkFlags_def context_of_def app_Flags_def trim_blanks_def supplied_def
        demo_args_def)
  from user_flag_default_root [of "''/m''" demo_args] o
  have a: "resolve_string (app_Flags ''/m'') demo_args ''user'' = ''root''"
    by blast
  from user_flag_default_root [of "''/m''" "demo_args @ [(''u'', [])]"] m
  have b: "supplied (demo_args @ [(''u'', [])]) [''user'', ''u''] = Some []"
    by blast
  have o': "supplied demo_args [''user'', ''u''] = None"
    by (simp add: supplied_def demo_args_def)
  from o' l m a b show ?thesis by blast
qed

end
